theory Spec2Isabelle
  imports Complex_Main "HOL-Library.Log_Nat"
begin

section \<open>Exceptions and Python values\<close>

text \<open>
  The exceptions that the modelled code raises or receives, all of them
  subclasses of Python's \<open>Exception\<close>.  \<open>RemoteFailure\<close> stands for any
  exception raised by a collaborator (transport failure, timeout, serialisation
  failure), with its message.
\<close>

datatype exn =
    KeyError string
  | TypeError string
  | ZeroDivisionError
  | OverflowError
  | RemoteFailure string

text \<open>\<open>str(e)\<close>, as the f-strings of the source render an exception.\<close>

fun exn_str :: "exn \<Rightarrow> string" where
  "exn_str (KeyError k) = [CHR 0x27] @ k @ [CHR 0x27]"
| "exn_str (TypeError m) = m"
| "exn_str ZeroDivisionError = ''division by zero''"
| "exn_str OverflowError = ''integer division result too large for a float''"
| "exn_str (RemoteFailure m) = m"

section \<open>Configuration (the settings provider)\<close>

text \<open>
  \<open>ty_config.tygenie\<close> is read on every access, so every operation below takes
  the configuration in force at the time of the call as an argument.  Its loader
  is not part of the source; the sections are typed as the source uses them:
  \<open>log\<close> is the optional \<open>"log"\<close> section with optional keys \<open>"enable"\<close> and
  \<open>"file"\<close>; \<open>alerts_limit\<close> is the optional key \<open>"limit"\<close> of the
  \<open>"alerts"\<close> section, an integer (the section itself, which the source
  indexes without a default, is taken to be present); \<open>filters\<close> maps a filter
  name to its entry, whose optional key \<open>"filter"\<close> holds the query string,
  and is empty when the configuration has no \<open>"filters"\<close> section.  The flag
  \<open>enable\<close> is the truth value of what is configured.
\<close>

record log_section =
  enable :: "bool option"
  log_file :: "string option"

record config =
  log :: "log_section option"
  alerts_limit :: "int option"
  default_filter :: "string option"
  filters :: "string \<rightharpoonup> string option"

section \<open>The activity logger\<close>

text \<open>
  The part of the outside world that the logger touches: the lines written to
  the textual console (\<open>log(...)\<close>), the files (either the text appended so
  far, or unwritable, with the message of the exception that opening it raises),
  and the clock read by \<open>pendulum.now()\<close>: \<open>clock w (ticks w)\<close> is the rendering
  of the current date, and every reading advances \<open>ticks\<close>.
\<close>

datatype file_state = Content string | Unwritable string

record world =
  console :: "string list"
  files :: "string \<Rightarrow> file_state"
  clock :: "nat \<Rightarrow> string"
  ticks :: nat

definition ApiLog :: "config \<Rightarrow> string \<Rightarrow> world \<Rightarrow> world" where
  "ApiLog cfg message w =
     (if message = [] then w
      else
        let log_config = (case log cfg of None \<Rightarrow> \<lparr>enable = Some False, log_file = None\<rparr>
                          | Some l \<Rightarrow> l)
        in if enable log_config = Some False then w
           else
             let date = clock w (ticks w);
                 w1 = w\<lparr>ticks := ticks w + 1\<rparr>;
                 logline = ''['' @ date @ ''] '' @ message;
                 w2 = w1\<lparr>console := console w1 @ [logline]\<rparr>;
                 path = (case log_file log_config of None \<Rightarrow> ''/tmp/tygenie.log''
                         | Some p \<Rightarrow> p)
             in case files w2 path of
                  Content c \<Rightarrow> w2\<lparr>files := (files w2)(path := Content (c @ logline @ [CHR 0x0A]))\<rparr>
                | Unwritable e \<Rightarrow> w2\<lparr>console := console w2 @ [''Unable to log in file: '' @ e]\<rparr>)"

section \<open>Python's division of integers and conversion to an integer\<close>

text \<open>
  \<open>a / b\<close> on Python integers is true division: it raises \<open>ZeroDivisionError\<close>
  when \<open>b\<close> is zero, and otherwise yields the IEEE 754 binary64 number nearest to
  the exact quotient (ties to even, 53 significant bits, the least exponent of a
  unit in the last place being -1074), raising \<open>OverflowError\<close> when that number
  would reach 2 to the power 1024.  A finite binary64 number is a rational
  number, and the model computes with it as such.
\<close>

definition pow2 :: "int \<Rightarrow> rat" where
  "pow2 e = (if 0 \<le> e then 2 ^ nat e else 1 / 2 ^ nat (- e))"

text \<open>
  The integer \<open>k\<close> with \<open>pow2 k \<le> a / b < pow2 (k + 1)\<close>, for positive \<open>a\<close>
  and \<open>b\<close>: the difference of the bit lengths, or one less.
\<close>

definition ilog2 :: "int \<Rightarrow> int \<Rightarrow> int" where
  "ilog2 a b =
     (let d = bitlen a - bitlen b
      in if pow2 d \<le> of_int a / of_int b then d else d - 1)"

definition round_half_even :: "rat \<Rightarrow> int" where
  "round_half_even x =
     (let f = \<lfloor>x\<rfloor>; r = x - of_int f
      in if r < 1 / 2 then f
         else if 1 / 2 < r then f + 1
         else if even f then f else f + 1)"

text \<open>The binary64 number nearest to \<open>a / b\<close>, for positive \<open>a\<close> and \<open>b\<close>.\<close>

definition binary64 :: "int \<Rightarrow> int \<Rightarrow> rat" where
  "binary64 a b =
     (let e = max (ilog2 a b - 52) (- 1074)
      in of_int (round_half_even (of_int a / of_int b / pow2 e)) * pow2 e)"

definition true_div :: "int \<Rightarrow> int \<Rightarrow> exn + rat" where
  "true_div a b =
     (if b = 0 then Inl ZeroDivisionError
      else if a = 0 then Inr 0
      else
        let v = binary64 \<bar>a\<bar> \<bar>b\<bar>
        in if 2 ^ 1024 \<le> v then Inl OverflowError
           else Inr (if (a < 0) = (b < 0) then v else - v))"

text \<open>\<open>int(x)\<close> on a float truncates towards zero.\<close>

definition py_int :: "rat \<Rightarrow> int" where
  "py_int x = (if 0 \<le> x then \<lfloor>x\<rfloor> else \<lceil>x\<rceil>)"

section \<open>Parameter mappings\<close>

text \<open>
  The payload objects built by the mutating operations, and the values that occur
  in the parameter dictionaries handed to the remote operations.
\<close>

datatype body =
    AlertActionPayload (p_user: string) (p_source: string) (p_note: string)
  | AddTagsToAlertPayload (p_user: string) (p_source: string) (p_note: string)
      (p_tags: "string list")

datatype pyval =
    VBool bool
  | VInt int
  | VStr string
  | VStrs "string list"
  | VDate string
  | VBody body

type_synonym params = "string \<rightharpoonup> pyval"

section \<open>The pagination and filter engine (class Query)\<close>

text \<open>
  \<open>limit_field\<close> is the attribute \<open>_limit\<close>; \<open>sort_field\<close> and \<open>order_field\<close>
  are \<open>sort\<close> and \<open>order\<close>.  Every method takes the configuration and the
  world (for the logger) and returns its result with the new world and the new
  object state.
\<close>

record query_state =
  limit_field :: int
  sort_field :: string
  order_field :: string
  query :: string
  offset :: int
  current_filter :: "string option"
  current :: params

text \<open>The property \<open>limit\<close>: the getter stores what it read, and returns it.\<close>

definition limit :: "config \<Rightarrow> query_state \<Rightarrow> int \<times> query_state" where
  "limit cfg q =
     (let v = (case alerts_limit cfg of None \<Rightarrow> 22 | Some l \<Rightarrow> l)
      in (v, q\<lparr>limit_field := v\<rparr>))"

text \<open>The setter of \<open>limit\<close>: \<open>value or int(...)\<close>; the integer 0 is the falsy value.\<close>

definition limit_setter :: "config \<Rightarrow> int \<Rightarrow> query_state \<Rightarrow> int \<times> query_state" where
  "limit_setter cfg v q =
     (let v' = (if v \<noteq> 0 then v
                else (case alerts_limit cfg of None \<Rightarrow> 22 | Some l \<Rightarrow> l))
      in (v', q\<lparr>limit_field := v'\<rparr>))"

text \<open>The method \<open>_get_query\<close>.\<close>

definition get_query ::
  "config \<Rightarrow> string option \<Rightarrow> world \<Rightarrow> query_state \<Rightarrow> string \<times> world \<times> query_state" where
  "get_query cfg filter_name w q =
     (let filter_name' =
            (case filter_name of
               Some n \<Rightarrow> Some n
             | None \<Rightarrow> (case current_filter q of
                          Some c \<Rightarrow> Some c
                        | None \<Rightarrow> default_filter cfg));
          (qry, w') =
            (case filter_name' of
               None \<Rightarrow> ([], w)
             | Some n \<Rightarrow>
                 (case filters cfg n of
                    None \<Rightarrow> ([], ApiLog cfg (''Custom filter '' @ [CHR 0x27] @ n @ [CHR 0x27] @ '' not found'') w)
                  | Some cust_filter \<Rightarrow>
                      ((case cust_filter of None \<Rightarrow> [] | Some f \<Rightarrow> f), w)))
      in (qry, w', q\<lparr>current_filter := filter_name'\<rparr>))"

text \<open>The method \<open>get\<close>; \<open>params | parameters\<close> is \<open>params ++ parameters\<close>.\<close>

definition get ::
  "config \<Rightarrow> string option \<Rightarrow> params \<Rightarrow> world \<Rightarrow> query_state \<Rightarrow> params \<times> world \<times> query_state" where
  "get cfg filter_name parameters w q =
     (let (qry, w1, q1) = get_query cfg filter_name w q;
          (lim, q2) = limit cfg q1;
          params = [''limit'' \<mapsto> VInt lim,
                    ''sort'' \<mapsto> VStr (sort_field q2),
                    ''order'' \<mapsto> VStr (order_field q2),
                    ''offset'' \<mapsto> VInt (offset q2),
                    ''query'' \<mapsto> VStr qry]
      in (params ++ parameters, w1, q2))"

text \<open>
  The constructor.  The attribute \<open>current\<close> does not exist while the
  constructor's call of \<open>get\<close> runs (which does not read it); the empty mapping
  stands for it until it is assigned.
\<close>

definition Query_init :: "config \<Rightarrow> world \<Rightarrow> world \<times> query_state" where
  "Query_init cfg w =
     (let q0 = \<lparr>limit_field = 22, sort_field = ''createdAt'', order_field = ''desc'',
                query = ''status:open'', offset = 0, current_filter = None,
                current = Map.empty\<rparr>;
          (p, w1, q1) = get cfg None Map.empty w q0
      in (w1, q1\<lparr>current := p\<rparr>))"

definition current_page :: "config \<Rightarrow> query_state \<Rightarrow> (exn + int) \<times> query_state" where
  "current_page cfg q =
     (let off = offset q;
          (lim, q1) = limit cfg q
      in (case true_div off lim of
            Inl e \<Rightarrow> Inl e
          | Inr x \<Rightarrow> Inr (py_int x + 1), q1))"

definition get_next :: "config \<Rightarrow> world \<Rightarrow> query_state \<Rightarrow> params \<times> world \<times> query_state" where
  "get_next cfg w q =
     (let off = offset q;
          (lim, q1) = limit cfg q;
          q2 = q1\<lparr>offset := off + lim\<rparr>
      in get cfg None [''offset'' \<mapsto> VInt (offset q2)] w q2)"

definition get_previous :: "config \<Rightarrow> world \<Rightarrow> query_state \<Rightarrow> params \<times> world \<times> query_state" where
  "get_previous cfg w q =
     (let off = offset q;
          (lim, q1) = limit cfg q;
          q2 = q1\<lparr>offset := off - lim\<rparr>
      in get cfg None [''offset'' \<mapsto> VInt (max 0 (offset q2))] w q2)"

text \<open>\<open>n\<close> successive calls of \<open>get_next\<close>, under one configuration.\<close>

fun repeat_get_next :: "config \<Rightarrow> nat \<Rightarrow> world \<Rightarrow> query_state \<Rightarrow> world \<times> query_state" where
  "repeat_get_next cfg 0 w q = (w, q)"
| "repeat_get_next cfg (Suc n) w q =
     (let (p, w1, q1) = get_next cfg w q in repeat_get_next cfg n w1 q1)"

section \<open>The API facade (class OpsGenie)\<close>

text \<open>
  The generated bindings are external.  A remote operation is a module with a
  name (\<open>__name__\<close>) and a function \<open>asyncio_detailed\<close>, which returns a
  response object or raises.  The exceptions of the model are all subclasses of
  \<open>Exception\<close> (transport failure, timeout, serialisation failure, errors of
  argument binding); task cancellation and interpreter exit, which derive from
  \<open>BaseException\<close>, are outside the model.  The attributes of a response are
  read by the facade one by one; each reading yields a value or raises.
\<close>

record AuthenticatedClient =
  base_url :: string
  token :: string
  prefix :: string
  timeout_default :: nat
  timeout_connect :: nat

record 'p response =
  status_code :: "exn + int"
  content :: "exn + string"
  parsed :: "exn + 'p option"

record 'p resource =
  resource_name :: string
  asyncio_detailed :: "AuthenticatedClient \<Rightarrow> params \<Rightarrow> exn + 'p response"

text \<open>
  The module-level names the facade uses: the configuration, the version
  constant \<open>c.VERSION\<close>, the remote operations imported from the bindings,
  and the interpreter's rendering of values inside f-strings.
\<close>

record 'p module_env =
  ty_config :: config
  VERSION :: string
  str_of_params :: "params \<Rightarrow> string"
  str_of_int :: "int \<Rightarrow> string"
  str_of_bytes :: "string \<Rightarrow> string"
  res_get_info :: "'p resource"
  res_count_alerts :: "'p resource"
  res_list_alerts :: "'p resource"
  res_get_alert :: "'p resource"
  res_list_notes :: "'p resource"
  res_acknowledge_alert :: "'p resource"
  res_add_note :: "'p resource"
  res_un_acknowledge_alert :: "'p resource"
  res_close_alert :: "'p resource"
  res_add_tags :: "'p resource"
  res_remove_tags :: "'p resource"
  res_list_schedules :: "'p resource"
  res_get_on_calls :: "'p resource"

record OpsGenie =
  api_key :: string
  host :: string
  username :: string
  source :: string
  client :: AuthenticatedClient

definition OpsGenie_init :: "'p module_env \<Rightarrow> string \<Rightarrow> string \<Rightarrow> string \<Rightarrow> OpsGenie" where
  "OpsGenie_init g key h u =
     \<lparr>api_key = key, host = h, username = u,
      source = ''TyGenie '' @ VERSION g,
      client = \<lparr>base_url = h, token = key, prefix = ''GenieKey'',
                timeout_default = 5, timeout_connect = 10\<rparr>\<rparr>"

text \<open>
  What a facade method hands back: \<open>None\<close>, the parsed payload, or the
  response object itself.
\<close>

datatype 'p ret = RNone | RParsed 'p | RResponse "'p response"

text \<open>
  The call \<open>getattr(resource, "asyncio_detailed")(client=self.client, **kwargs)\<close>:
  a keyword \<open>client\<close> among \<open>kwargs\<close> is passed twice, a \<open>TypeError\<close>
  of the call expression.
\<close>

definition call_resource :: "OpsGenie \<Rightarrow> 'p resource \<Rightarrow> params \<Rightarrow> exn + 'p response" where
  "call_resource self resource kwargs =
     (if ''client'' \<in> dom kwargs
      then Inl (TypeError ''got multiple values for keyword argument client'')
      else asyncio_detailed resource (client self) kwargs)"

text \<open>
  The \<open>try\<close> block of \<open>api_call\<close>: its outcome (the value of
  \<open>response.parsed\<close>, or the exception raised), the value of the local variable
  \<open>response\<close> at that point, and the world.
\<close>

definition api_call_try ::
  "'p module_env \<Rightarrow> OpsGenie \<Rightarrow> 'p resource \<Rightarrow> params \<Rightarrow> world
     \<Rightarrow> (exn + 'p option) \<times> 'p response option \<times> world" where
  "api_call_try g self resource kwargs w =
     (let cfg = ty_config g;
          w1 = ApiLog cfg (''API call '' @ resource_name resource @ '' with params ''
                            @ str_of_params g kwargs) w
      in case call_resource self resource kwargs of
           Inl e \<Rightarrow> (Inl e, None, w1)
         | Inr response \<Rightarrow>
             (case status_code response of
                Inl e \<Rightarrow> (Inl e, Some response, w1)
              | Inr sc \<Rightarrow>
                  let w2 = ApiLog cfg (''API status code: '' @ str_of_int g sc) w1
                  in case content response of
                       Inl e \<Rightarrow> (Inl e, Some response, w2)
                     | Inr c \<Rightarrow>
                         let w3 = ApiLog cfg (''API content: '' @ str_of_bytes g c) w2;
                             w4 = ApiLog cfg (''API call '' @ resource_name resource @ '' done'') w3
                         in case parsed response of
                              Inl e \<Rightarrow> (Inl e, Some response, w4)
                            | Inr p \<Rightarrow> (Inr p, Some response, w4)))"

text \<open>
  \<open>api_call(self, resource, **kwargs)\<close>: a keyword named \<open>self\<close> or
  \<open>resource\<close> collides with the method's own parameters, a \<open>TypeError\<close> at
  the call, before the body runs.  Otherwise the \<open>try\<close> block runs, and the
  handler logs the exception and returns the local variable \<open>response\<close>.
\<close>

definition api_call ::
  "'p module_env \<Rightarrow> OpsGenie \<Rightarrow> 'p resource \<Rightarrow> params \<Rightarrow> world \<Rightarrow> (exn + 'p ret) \<times> world" where
  "api_call g self resource kwargs w =
     (if ''self'' \<in> dom kwargs \<or> ''resource'' \<in> dom kwargs
      then (Inl (TypeError ''api_call() got multiple values for argument''), w)
      else
        case api_call_try g self resource kwargs w of
          (Inr p, _, w') \<Rightarrow> (Inr (case p of None \<Rightarrow> RNone | Some v \<Rightarrow> RParsed v), w')
        | (Inl e, response, w') \<Rightarrow>
            (Inr (case response of None \<Rightarrow> RNone | Some r \<Rightarrow> RResponse r),
             ApiLog (ty_config g) (''Exception in API call: '' @ exn_str e) w'))"

text \<open>
  Dictionaries passed to the facade are objects: a reference into a heap of
  dictionaries.  Every method with a default \<open>parameters: dict = {}\<close> owns one
  dictionary, created when the class body is executed and used whenever the
  argument is omitted (\<open>None\<close> below); \<open>DefaultArg m\<close> is the one of method
  \<open>m\<close>.
\<close>

datatype ref = DefaultArg string | Obj nat

type_synonym heap = "ref \<Rightarrow> params"

definition arg_or_default :: "string \<Rightarrow> ref option \<Rightarrow> ref" where
  "arg_or_default m parameters = (case parameters of None \<Rightarrow> DefaultArg m | Some r \<Rightarrow> r)"

definition get_account_info ::
  "'p module_env \<Rightarrow> OpsGenie \<Rightarrow> world \<Rightarrow> (exn + 'p ret) \<times> world" where
  "get_account_info g self w = api_call g self (res_get_info g) Map.empty w"

definition count_alerts ::
  "'p module_env \<Rightarrow> OpsGenie \<Rightarrow> ref option \<Rightarrow> heap \<Rightarrow> world \<Rightarrow> (exn + 'p ret) \<times> heap \<times> world" where
  "count_alerts g self parameters h w =
     (let p = arg_or_default ''count_alerts'' parameters;
          params = [''query'' \<mapsto> (case h p ''query'' of None \<Rightarrow> VStr [] | Some v \<Rightarrow> v)];
          (r, w') = api_call g self (res_count_alerts g) params w
      in (r, h, w'))"

definition list_alerts ::
  "'p module_env \<Rightarrow> OpsGenie \<Rightarrow> int \<Rightarrow> ref option \<Rightarrow> heap \<Rightarrow> world
     \<Rightarrow> (exn + 'p ret) \<times> heap \<times> world" where
  "list_alerts g self limit_arg parameters h w =
     (let p = arg_or_default ''list_alerts'' parameters;
          params = [''limit'' \<mapsto> VInt limit_arg, ''sort'' \<mapsto> VStr ''updatedAt'',
                    ''order'' \<mapsto> VStr ''desc'', ''query'' \<mapsto> VStr []] ++ h p;
          (r, w') = api_call g self (res_list_alerts g) params w
      in (r, h, w'))"

definition get_alert ::
  "'p module_env \<Rightarrow> OpsGenie \<Rightarrow> ref option \<Rightarrow> heap \<Rightarrow> world \<Rightarrow> (exn + 'p ret) \<times> heap \<times> world" where
  "get_alert g self parameters h w =
     (let p = arg_or_default ''get_alert'' parameters;
          (r, w') = api_call g self (res_get_alert g) (h p) w
      in (r, h, w'))"

definition get_alert_notes ::
  "'p module_env \<Rightarrow> OpsGenie \<Rightarrow> ref option \<Rightarrow> heap \<Rightarrow> world \<Rightarrow> (exn + 'p ret) \<times> heap \<times> world" where
  "get_alert_notes g self parameters h w =
     (let p = arg_or_default ''get_alert_notes'' parameters;
          (r, w') = api_call g self (res_list_notes g) (h p) w
      in (r, h, w'))"

definition ack_alert ::
  "'p module_env \<Rightarrow> OpsGenie \<Rightarrow> ref option \<Rightarrow> string \<Rightarrow> heap \<Rightarrow> world
     \<Rightarrow> (exn + 'p ret) \<times> heap \<times> world" where
  "ack_alert g self parameters nt h w =
     (let p = arg_or_default ''ack_alert'' parameters;
          body = AlertActionPayload (username self) (source self) nt;
          h' = h(p := (h p)(''body'' \<mapsto> VBody body));
          (r, w') = api_call g self (res_acknowledge_alert g) (h' p) w
      in (r, h', w'))"

definition add_note ::
  "'p module_env \<Rightarrow> OpsGenie \<Rightarrow> ref option \<Rightarrow> string \<Rightarrow> heap \<Rightarrow> world
     \<Rightarrow> (exn + 'p ret) \<times> heap \<times> world" where
  "add_note g self parameters nt h w =
     (let p = arg_or_default ''add_note'' parameters;
          body = AlertActionPayload (username self) (source self) nt;
          h' = h(p := (h p)(''body'' \<mapsto> VBody body));
          w1 = ApiLog (ty_config g)
                 (''opsgenie call add_note with params: '' @ str_of_params g (h' p)) w;
          (r, w') = api_call g self (res_add_note g) (h' p) w1
      in (r, h', w'))"

definition unack_alert ::
  "'p module_env \<Rightarrow> OpsGenie \<Rightarrow> ref option \<Rightarrow> string \<Rightarrow> heap \<Rightarrow> world
     \<Rightarrow> (exn + 'p ret) \<times> heap \<times> world" where
  "unack_alert g self parameters nt h w =
     (let p = arg_or_default ''unack_alert'' parameters;
          body = AlertActionPayload (username self) (source self) nt;
          h' = h(p := (h p)(''body'' \<mapsto> VBody body));
          (r, w') = api_call g self (res_un_acknowledge_alert g) (h' p) w
      in (r, h', w'))"

definition close_alert ::
  "'p module_env \<Rightarrow> OpsGenie \<Rightarrow> ref option \<Rightarrow> string \<Rightarrow> heap \<Rightarrow> world
     \<Rightarrow> (exn + 'p ret) \<times> heap \<times> world" where
  "close_alert g self parameters nt h w =
     (let p = arg_or_default ''close_alert'' parameters;
          body = AlertActionPayload (username self) (''TyGenie '' @ VERSION g) nt;
          h' = h(p := (h p)(''body'' \<mapsto> VBody body));
          (r, w') = api_call g self (res_close_alert g) (h' p) w
      in (r, h', w'))"

definition tag_alert ::
  "'p module_env \<Rightarrow> OpsGenie \<Rightarrow> ref option \<Rightarrow> string list \<Rightarrow> string \<Rightarrow> heap \<Rightarrow> world
     \<Rightarrow> (exn + 'p ret) \<times> heap \<times> world" where
  "tag_alert g self parameters tgs nt h w =
     (let p = arg_or_default ''tag_alert'' parameters;
          body = AddTagsToAlertPayload (username self) (source self) nt tgs;
          h' = h(p := (h p)(''body'' \<mapsto> VBody body));
          (r, w') = api_call g self (res_add_tags g) (h' p) w
      in (r, h', w'))"

text \<open>\<open>parameters["identifier"]\<close> raises \<open>KeyError\<close> when the key is missing.\<close>

definition remove_tag_alert ::
  "'p module_env \<Rightarrow> OpsGenie \<Rightarrow> ref option \<Rightarrow> string list \<Rightarrow> string \<Rightarrow> heap \<Rightarrow> world
     \<Rightarrow> (exn + 'p ret) \<times> heap \<times> world" where
  "remove_tag_alert g self parameters tgs nt h w =
     (let p = arg_or_default ''remove_tag_alert'' parameters
      in case h p ''identifier'' of
           None \<Rightarrow> (Inl (KeyError ''identifier''), h, w)
         | Some ident \<Rightarrow>
             let params = [''user'' \<mapsto> VStr (username self),
                           ''source'' \<mapsto> VStr (source self),
                           ''tags'' \<mapsto> VStrs tgs,
                           ''note'' \<mapsto> VStr nt,
                           ''identifier'' \<mapsto> ident];
                 (r, w') = api_call g self (res_remove_tags g) params w
             in (r, h, w'))"

definition list_schedules ::
  "'p module_env \<Rightarrow> OpsGenie \<Rightarrow> world \<Rightarrow> (exn + 'p ret) \<times> world" where
  "list_schedules g self w = api_call g self (res_list_schedules g) Map.empty w"

text \<open>\<open>pendulum.now()\<close> reads the clock; \<open>d1 | d2\<close> is \<open>d1 ++ d2\<close>.\<close>

definition whois_on_call ::
  "'p module_env \<Rightarrow> OpsGenie \<Rightarrow> ref option \<Rightarrow> heap \<Rightarrow> world \<Rightarrow> (exn + 'p ret) \<times> heap \<times> world" where
  "whois_on_call g self parameters h w =
     (let p = arg_or_default ''whois_on_call'' parameters;
          date = clock w (ticks w);
          w1 = w\<lparr>ticks := ticks w + 1\<rparr>;
          params = [''flat'' \<mapsto> VBool True, ''date'' \<mapsto> VDate date] ++ h p;
          (r, w') = api_call g self (res_get_on_calls g) params w1
      in (r, h, w'))"

section \<open>Example inputs\<close>

definition cfg0 :: config where
  "cfg0 = \<lparr>log = None, alerts_limit = Some 22, default_filter = None, filters = Map.empty\<rparr>"

definition w0 :: world where
  "w0 = \<lparr>console = [], files = (\<lambda>_. Content []), clock = (\<lambda>_. ''now''), ticks = 0\<rparr>"

definition cfg_zero :: config where
  "cfg_zero = cfg0\<lparr>alerts_limit := Some 0\<rparr>"

definition cfg_one :: config where
  "cfg_one = cfg0\<lparr>alerts_limit := Some 1\<rparr>"

text \<open>A configuration with a default filter, and a \<open>log\<close> section that names a file only.\<close>

definition cfg_closed :: config where
  "cfg_closed = cfg0\<lparr>default_filter := Some ''closed'',
                       filters := [''closed'' \<mapsto> Some ''status:closed'']\<rparr>"

definition cfg_log :: config where
  "cfg_log = cfg0\<lparr>log := Some \<lparr>enable = None, log_file = Some ''/var/log/tygenie.log''\<rparr>\<rparr>"

text \<open>The state of a freshly constructed \<open>Query\<close>.\<close>

definition q0 :: query_state where
  "q0 = snd (Query_init cfg0 w0)"

text \<open>
  Remote operations for the examples: one that needs an \<open>identifier\<close> and
  answers, one that times out, and one whose response cannot be parsed.
\<close>

definition ok_response :: "string response" where
  "ok_response = \<lparr>status_code = Inr 200, content = Inr ''{}'', parsed = Inr (Some ''alert'')\<rparr>"

definition unparsed_response :: "string response" where
  "unparsed_response =
     \<lparr>status_code = Inr 200, content = Inr ''{}'', parsed = Inl (RemoteFailure ''no payload'')\<rparr>"

definition unreadable_response :: "string response" where
  "unreadable_response =
     \<lparr>status_code = Inl (RemoteFailure ''no status''), content = Inr ''{}'',
      parsed = Inr (Some ''alert'')\<rparr>"

definition undecodable_response :: "string response" where
  "undecodable_response =
     \<lparr>status_code = Inr 200, content = Inl (RemoteFailure ''no content''),
      parsed = Inr (Some ''alert'')\<rparr>"

definition res_needs_identifier :: "string resource" where
  "res_needs_identifier =
     \<lparr>resource_name = ''get_alert'',
      asyncio_detailed = (\<lambda>c kwargs.
        if kwargs ''identifier'' = None
        then Inl (TypeError ''missing 1 required keyword-only argument: identifier'')
        else Inr ok_response)\<rparr>"

definition res_timeout :: "string resource" where
  "res_timeout =
     \<lparr>resource_name = ''list_alerts'',
      asyncio_detailed = (\<lambda>c kwargs. Inl (RemoteFailure ''timed out''))\<rparr>"

definition res_returning :: "string response \<Rightarrow> string resource" where
  "res_returning r = \<lparr>resource_name = ''get_alert'', asyncio_detailed = (\<lambda>c kwargs. Inr r)\<rparr>"

definition g0 :: "string module_env" where
  "g0 = \<lparr>ty_config = cfg0, VERSION = ''1.0'',
          str_of_params = (\<lambda>_. ''{}''), str_of_int = (\<lambda>_. ''200''), str_of_bytes = (\<lambda>b. b),
          res_get_info = res_needs_identifier, res_count_alerts = res_needs_identifier,
          res_list_alerts = res_timeout, res_get_alert = res_needs_identifier,
          res_list_notes = res_needs_identifier, res_acknowledge_alert = res_needs_identifier,
          res_add_note = res_needs_identifier, res_un_acknowledge_alert = res_needs_identifier,
          res_close_alert = res_needs_identifier, res_add_tags = res_needs_identifier,
          res_remove_tags = res_needs_identifier, res_list_schedules = res_needs_identifier,
          res_get_on_calls = res_needs_identifier\<rparr>"

definition self0 :: OpsGenie where
  "self0 = OpsGenie_init g0 ''key'' ''https://api.opsgenie.com'' ''alice''"

definition h0 :: heap where
  "h0 = (\<lambda>_. Map.empty)"

section \<open>Properties of the pagination and filter engine\<close>

lemma limit_fst: "fst (limit cfg q) = (case alerts_limit cfg of None \<Rightarrow> 22 | Some l \<Rightarrow> l)"
  by (simp add: limit_def Let_def)

lemma get_offset: "offset (snd (snd (get cfg fn ps w q))) = offset q"
  by (simp add: get_def get_query_def limit_def Let_def split: prod.splits option.splits)

lemma get_current: "current (snd (snd (get cfg fn ps w q))) = current q"
  by (simp add: get_def get_query_def limit_def Let_def split: prod.splits option.splits)

lemma get_next_offset:
  "offset (snd (snd (get_next cfg w q))) = offset q + fst (limit cfg q)"
  by (simp add: get_next_def get_offset limit_def Let_def split: prod.splits)

lemma get_previous_offset:
  "offset (snd (snd (get_previous cfg w q))) = offset q - fst (limit cfg q)"
  by (simp add: get_previous_def get_offset limit_def Let_def split: prod.splits)

lemma get_previous_param:
  "fst (get_previous cfg w q) ''offset'' = Some (VInt (max 0 (offset q - fst (limit cfg q))))"
  by (simp add: get_previous_def get_def limit_def Let_def split: prod.splits)

lemma Query_init_offset: "offset (snd (Query_init cfg w)) = 0"
proof -
  let ?q = "\<lparr>limit_field = 22, sort_field = ''createdAt'', order_field = ''desc'',
             query = ''status:open'', offset = 0, current_filter = None,
             current = Map.empty\<rparr>"
  obtain p w1 q1 where g: "get cfg None Map.empty w ?q = (p, w1, q1)"
    by (cases "get cfg None Map.empty w ?q") auto
  have "offset q1 = 0"
    using get_offset [of cfg None Map.empty w ?q] g by simp
  then show ?thesis
    using g by (simp add: Query_init_def)
qed

lemma q0_offset: "offset q0 = 0"
  by (simp add: q0_def Query_init_offset)

lemma current_page_fst:
  "fst (current_page cfg q) =
     (case true_div (offset q) (fst (limit cfg q)) of
        Inl e \<Rightarrow> Inl e
      | Inr x \<Rightarrow> Inr (py_int x + 1))"
  by (simp add: current_page_def limit_def Let_def)

text \<open>
  C1.  \<open>get_previous\<close> is meant to keep the pagination cursor at or above 0,
  and clamps the offset it hands out; but the stored offset is decremented
  without the clamp.  On a freshly constructed \<open>Query\<close> with a page size of 22,
  one call of \<open>get_previous\<close> returns the offset 0 and leaves the stored offset
  at -22, after which \<open>current_page\<close> reports page 0.
\<close>

theorem get_previous_stored_offset_negative:
  "fst (get_previous cfg0 w0 q0) ''offset'' = Some (VInt 0)
   \<and> offset (snd (snd (get_previous cfg0 w0 q0))) = - 22
   \<and> fst (current_page cfg0 (snd (snd (get_previous cfg0 w0 q0)))) = Inr 0"
proof -
  have l: "fst (limit cfg0 q) = 22" for q
    by (simp add: limit_fst cfg0_def)
  have d: "true_div (- 22) 22 = Inr (- 1)"
    by code_simp
  have p: "py_int (- 1) = - 1"
    by code_simp
  show ?thesis
    by (simp add: get_previous_param get_previous_offset current_page_fst l q0_offset d p)
qed

text \<open>
  C4, the claim as stated fails: with a configured limit of 0, the accessor
  yields 0, not the built-in default, and \<open>current_page\<close> raises
  \<open>ZeroDivisionError\<close>.
\<close>

theorem limit_zero_counterexample:
  "alerts_limit cfg_zero = Some 0
   \<and> fst (limit cfg_zero q0) = 0
   \<and> fst (current_page cfg_zero q0) = Inl ZeroDivisionError"
  by (simp add: current_page_fst limit_fst cfg_zero_def true_div_def)

text \<open>
  C4, amended.  The accessor \<open>limit\<close> yields the configured limit as it is, zero
  and negative values included, and the built-in default 22 only when no limit
  is configured; \<open>current_page\<close> raises \<open>ZeroDivisionError\<close> exactly when
  that limit is zero.
\<close>

theorem limit_is_configured_value:
  "fst (limit cfg q) = (case alerts_limit cfg of None \<Rightarrow> 22 | Some l \<Rightarrow> l)
   \<and> (fst (current_page cfg q) = Inl ZeroDivisionError) = (fst (limit cfg q) = 0)"
proof -
  have z: "true_div a 0 = Inl ZeroDivisionError" for a
    by (simp add: true_div_def)
  have nz: "true_div a b \<noteq> Inl ZeroDivisionError" if "b \<noteq> 0" for a b
    using that by (simp add: true_div_def Let_def)
  have "fst (current_page cfg q) = Inl ZeroDivisionError \<longleftrightarrow> fst (limit cfg q) = 0"
  proof (cases "fst (limit cfg q) = 0")
    case True
    then show ?thesis by (simp add: current_page_fst z)
  next
    case False
    from nz [OF this, of "offset q"] False show ?thesis
      unfolding current_page_fst
      by (cases "true_div (offset q) (fst (limit cfg q))") simp_all
  qed
  then show ?thesis
    by (simp add: limit_fst)
qed

text \<open>
  C5, the claim as stated fails: on a fresh \<open>Query\<close>, \<open>get\<close> with the
  override \<open>offset = 40\<close> returns a mapping with offset 40, while \<open>current\<close>
  still holds the mapping computed by the constructor, with offset 0.
\<close>

theorem get_does_not_cache_counterexample:
  "current (snd (snd (get cfg0 None [''offset'' \<mapsto> VInt 40] w0 q0)))
     \<noteq> fst (get cfg0 None [''offset'' \<mapsto> VInt 40] w0 q0)"
proof -
  have "current q0 ''offset'' = Some (VInt 0)"
    by (simp add: q0_def Query_init_def get_def get_query_def limit_def Let_def cfg0_def
        split: prod.splits)
  moreover have "fst (get cfg0 None [''offset'' \<mapsto> VInt 40] w0 q0) ''offset'' = Some (VInt 40)"
    by (simp add: get_def Let_def split: prod.splits)
  ultimately show ?thesis
    by (auto simp: get_current)
qed

text \<open>
  C5, amended.  \<open>get\<close> returns the parameter mapping and leaves \<open>current\<close> as
  it was; \<open>current\<close> is assigned once, by the constructor, and holds the
  mapping that the constructor's own call of \<open>get\<close> returned.
\<close>

theorem get_leaves_current:
  "current (snd (snd (get cfg filter_name parameters w q))) = current q
   \<and> current (snd (Query_init cfg w)) =
       fst (get cfg None Map.empty w
             \<lparr>limit_field = 22, sort_field = ''createdAt'', order_field = ''desc'',
              query = ''status:open'', offset = 0, current_filter = None,
              current = Map.empty\<rparr>)"
  by (simp add: get_current Query_init_def Let_def split: prod.splits)

text \<open>
  C6.  Resolving the filter \<open>x\<close> records \<open>x\<close> as the current filter, whether
  or not the configuration has it; when it is absent the query is the empty
  string and the logger is called with the diagnostic.  A later resolution
  without an argument, under any configuration, is the resolution of \<open>x\<close>
  again: the configured default is not consulted.
\<close>

theorem get_query_sticky:
  "current_filter (snd (snd (get_query cfg (Some x) w q))) = Some x
   \<and> (filters cfg x = None \<longrightarrow>
        fst (get_query cfg (Some x) w q) = []
        \<and> fst (snd (get_query cfg (Some x) w q)) =
            ApiLog cfg (''Custom filter '' @ [CHR 0x27] @ x @ [CHR 0x27] @ '' not found'') w)
   \<and> get_query cfg' None w' (snd (snd (get_query cfg (Some x) w q))) =
       get_query cfg' (Some x) w' (snd (snd (get_query cfg (Some x) w q)))"
  by (simp add: get_query_def Let_def split: prod.splits option.splits)

theorem get_query_sticky_witness:
  "filters cfg0 ''mine'' = None
   \<and> current_filter (snd (snd (get_query cfg0 (Some ''mine'') w0 q0))) = Some ''mine''
   \<and> fst (get_query cfg0 (Some ''mine'') w0 q0) = []
   \<and> fst (get_query cfg_closed None w0 (snd (snd (get_query cfg0 (Some ''mine'') w0 q0)))) = []
   \<and> current_filter (snd (snd (get_query cfg_closed None w0
         (snd (snd (get_query cfg0 (Some ''mine'') w0 q0)))))) = Some ''mine''"
proof -
  have f: "filters cfg0 ''mine'' = None"
    by (simp add: cfg0_def)
  have g: "filters cfg_closed ''mine'' = None"
    by (simp add: cfg_closed_def cfg0_def)
  note a = get_query_sticky [of cfg0 "''mine''" w0 q0 cfg_closed w0]
  note b = get_query_sticky [of cfg_closed "''mine''" w0
      "snd (snd (get_query cfg0 (Some ''mine'') w0 q0))" cfg_closed w0]
  show ?thesis
    using a b f g by simp
qed

text \<open>
  C8.  Every key of the overrides passed to \<open>get\<close> is in the returned mapping
  with the caller's value.
\<close>

theorem get_overrides_win:
  "parameters k = Some v \<Longrightarrow> fst (get cfg filter_name parameters w q) k = Some v"
  by (simp add: get_def Let_def split: prod.splits)

theorem get_overrides_win_witness:
  "[''offset'' \<mapsto> VInt 40] ''offset'' = Some (VInt 40)
   \<and> offset q0 = 0
   \<and> fst (get cfg0 None [''offset'' \<mapsto> VInt 40] w0 q0) ''offset'' = Some (VInt 40)"
  using get_overrides_win [of "[''offset'' \<mapsto> VInt 40]" "''offset''" "VInt 40" cfg0 None w0 q0]
  by (simp add: q0_offset)

subsection \<open>Page numbers\<close>

lemma repeat_get_next_offset:
  "offset (snd (repeat_get_next cfg n w q)) = offset q + int n * fst (limit cfg q)"
proof (induction n arbitrary: w q)
  case 0
  show ?case by simp
next
  case (Suc n)
  obtain p w1 q1 where g: "get_next cfg w q = (p, w1, q1)"
    by (cases "get_next cfg w q") auto
  have "offset q1 = offset q + fst (limit cfg q)"
    using get_next_offset [of cfg w q] g by simp
  moreover have "fst (limit cfg q1) = fst (limit cfg q)"
    by (simp add: limit_fst)
  ultimately show ?case
    using Suc.IH [of w1 q1] g by (simp add: algebra_simps)
qed

lemma pow2_pos: "0 < pow2 e"
  by (simp add: pow2_def)

lemma pow2_powi: "pow2 e = 2 powi e"
  by (simp add: pow2_def power_int_def field_simps)

lemma pow2_mono: "i \<le> j \<Longrightarrow> pow2 i \<le> pow2 j"
  by (simp add: pow2_powi power_int_increasing)

lemma pow2_add: "pow2 (i + j) = pow2 i * pow2 j"
  by (simp add: pow2_powi power_int_add)

lemma pow2_nonneg_exp: "0 \<le> e \<Longrightarrow> pow2 e = of_int (2 ^ nat e)"
  by (simp add: pow2_def)

lemma bitlen_pos: "0 < a \<Longrightarrow> 1 \<le> bitlen a"
  by (simp add: bitlen_alt_def)

lemma bitlen_lower: "0 < a \<Longrightarrow> pow2 (bitlen a - 1) \<le> of_int a"
proof -
  assume a: "0 < a"
  then have "0 \<le> bitlen a - 1" using bitlen_pos [of a] by simp
  then have "pow2 (bitlen a - 1) = of_int (2 ^ nat (bitlen a - 1))"
    by (rule pow2_nonneg_exp)
  moreover have "(2::int) ^ nat (bitlen a - 1) \<le> a"
    using bitlen_bounds [OF a] by simp
  ultimately show ?thesis
    by (simp only: of_int_le_iff)
qed

lemma bitlen_upper: "0 < b \<Longrightarrow> of_int b < pow2 (bitlen b)"
proof -
  assume b: "0 < b"
  have "pow2 (bitlen b) = of_int (2 ^ nat (bitlen b))"
    using bitlen_nonneg [of b] by (rule pow2_nonneg_exp)
  moreover have "b < (2::int) ^ nat (bitlen b)"
    using bitlen_bounds [OF b] by simp
  ultimately show ?thesis
    by (simp only: of_int_less_iff)
qed

text \<open>The exponent computed by \<open>ilog2\<close> is not too large.\<close>

lemma ilog2_lower:
  assumes a: "0 < a" and b: "0 < b"
  shows "pow2 (ilog2 a b) \<le> of_int a / of_int b"
proof (cases "pow2 (bitlen a - bitlen b) \<le> of_int a / of_int b")
  case True
  then show ?thesis by (simp add: ilog2_def Let_def)
next
  case False
  have "pow2 (bitlen a - bitlen b - 1) * pow2 (bitlen b) = pow2 (bitlen a - 1)"
    by (simp add: pow2_add [symmetric])
  then have "pow2 (bitlen a - bitlen b - 1) = pow2 (bitlen a - 1) / pow2 (bitlen b)"
    using pow2_pos [of "bitlen b"] by (simp add: field_simps)
  also have "\<dots> \<le> of_int a / pow2 (bitlen b)"
    using bitlen_lower [OF a] pow2_pos [of "bitlen b"] by (simp add: divide_right_mono)
  also have "\<dots> \<le> of_int a / of_int b"
    using bitlen_upper [OF b] a b by (simp add: frac_le)
  finally show ?thesis using False by (simp add: ilog2_def Let_def)
qed

lemma ilog2_upper:
  assumes a: "0 < a" and b: "0 < b"
  shows "of_int a / of_int b < pow2 (ilog2 a b + 1)"
proof (cases "pow2 (bitlen a - bitlen b) \<le> of_int a / of_int b")
  case True
  have "pow2 (bitlen a - bitlen b + 1) * pow2 (bitlen b - 1) = pow2 (bitlen a)"
    by (simp add: pow2_add [symmetric])
  then have e: "pow2 (bitlen a - bitlen b + 1) = pow2 (bitlen a) / pow2 (bitlen b - 1)"
    using pow2_pos [of "bitlen b - 1"] by (simp add: field_simps)
  have "(of_int a :: rat) / of_int b \<le> of_int a / pow2 (bitlen b - 1)"
    using bitlen_lower [OF b] pow2_pos [of "bitlen b - 1"] a by (simp add: frac_le)
  also have "\<dots> < pow2 (bitlen a) / pow2 (bitlen b - 1)"
    using bitlen_upper [OF a] pow2_pos [of "bitlen b - 1"] by (simp add: divide_strict_right_mono)
  finally show ?thesis using True e by (simp add: ilog2_def Let_def)
next
  case False
  then show ?thesis by (simp add: ilog2_def Let_def)
qed

text \<open>The model of the division on quotients whose binary64 value is known.\<close>

lemma true_div_examples:
  "true_div 1 3 = Inr (6004799503160661 / 18014398509481984)"
  "true_div (- 7) 2 = Inr (- 7 / 2)"
  "true_div 5 0 = Inl ZeroDivisionError"
  by code_simp+

lemma py_int_examples:
  "py_int (7 / 2) = 3" "py_int (- 7 / 2) = - 3" "py_int (- 1 / 2) = 0"
  by code_simp+

lemma pow2_le_int_bound:
  assumes "pow2 k \<le> of_int n" and "n < 2 ^ 53"
  shows "k \<le> 52"
proof (rule ccontr)
  assume "\<not> k \<le> 52"
  then have "pow2 53 \<le> pow2 k" by (simp add: pow2_mono)
  also note assms(1)
  finally have "(2::rat) ^ 53 \<le> of_int n" by (simp add: pow2_def)
  then have "of_int (2 ^ 53) \<le> (of_int n :: rat)" by simp
  then have "(2::int) ^ 53 \<le> n" by (simp only: of_int_le_iff)
  with assms(2) show False by simp
qed

lemma round_half_even_int: "round_half_even (of_int m) = m"
  by (simp add: round_half_even_def)

lemma scale_int:
  assumes "e \<le> 0"
  shows "of_int n / pow2 e = of_int (n * 2 ^ nat (- e))"
  using assms by (cases "e = 0") (simp_all add: pow2_def)

text \<open>An integer quotient below \<open>2 ^ 53\<close> is a binary64 number: nothing is rounded.\<close>

lemma binary64_exact:
  assumes n: "0 < n" "n < 2 ^ 53" and L: "0 < L"
  shows "binary64 (n * L) L = of_int n"
proof -
  have q: "(of_int (n * L) :: rat) / of_int L = of_int n"
    using L by simp
  have "0 < n * L" using n L by simp
  from ilog2_lower [OF this L] have "pow2 (ilog2 (n * L) L) \<le> of_int n"
    by (simp only: q)
  then have "ilog2 (n * L) L \<le> 52" using n(2) by (rule pow2_le_int_bound)
  then have e: "max (ilog2 (n * L) L - 52) (- 1074) \<le> 0" by simp
  define e where "e = max (ilog2 (n * L) L - 52) (- 1074)"
  have "binary64 (n * L) L = of_int (round_half_even (of_int n / pow2 e)) * pow2 e"
    unfolding binary64_def Let_def q e_def ..
  also have "\<dots> = of_int (n * 2 ^ nat (- e)) * pow2 e"
    using e by (simp only: scale_int e_def [symmetric] round_half_even_int)
  also have "\<dots> = of_int n / pow2 e * pow2 e"
    using e by (simp only: scale_int e_def [symmetric])
  also have "\<dots> = of_int n" using pow2_pos [of e] by simp
  finally show ?thesis .
qed

lemma true_div_exact:
  assumes n: "0 \<le> n" "n < 2 ^ 53" and L: "0 < L"
  shows "true_div (n * L) L = Inr (of_int n)"
proof (cases "n = 0")
  case True
  then show ?thesis using L by (simp add: true_div_def)
next
  case False
  then have n0: "0 < n" using n by simp
  have nL: "0 < n * L" using n0 L by simp
  have "(of_int n :: rat) < of_int (2 ^ 53)" using n(2) by (simp only: of_int_less_iff)
  also have "\<dots> \<le> 2 ^ 1024" by simp
  finally have "\<not> (2::rat) ^ 1024 \<le> of_int n" by simp
  then show ?thesis
    using nL L binary64_exact [OF n0 n(2) L] by (simp add: true_div_def Let_def)
qed

lemma py_int_of_int: "py_int (of_int n) = n"
  by (simp add: py_int_def)

text \<open>
  C7, the claim as stated fails: the page number is computed through a
  floating-point division, and a quotient that is not a binary64 number is
  rounded.  With a page size of 1, after \<open>2 ^ 53 + 1\<close> calls of \<open>get_next\<close>
  the offset is 9007199254740993, the quotient is rounded to 9007199254740992,
  and \<open>current_page\<close> is 9007199254740993 instead of 9007199254740994.
\<close>

theorem current_page_after_get_next_counterexample:
  "0 < fst (limit cfg_one q0)
   \<and> offset q0 = 0
   \<and> fst (current_page cfg_one (snd (repeat_get_next cfg_one 9007199254740993 w0 q0)))
        = Inr 9007199254740993
   \<and> fst (current_page cfg_one (snd (repeat_get_next cfg_one 9007199254740993 w0 q0)))
        \<noteq> Inr (int 9007199254740993 + 1)"
proof -
  have l: "fst (limit cfg_one q) = 1" for q
    by (simp add: limit_fst cfg_one_def)
  have d: "true_div 9007199254740993 1 = Inr 9007199254740992"
    by code_simp
  have p: "py_int 9007199254740992 = 9007199254740992"
    by (simp add: py_int_def)
  show ?thesis
    by (simp add: current_page_fst repeat_get_next_offset l q0_offset d p)
qed

text \<open>
  C7, amended.  For a positive page size that does not change and a \<open>Query\<close>
  at offset 0, after \<open>n < 2 ^ 53\<close> calls of \<open>get_next\<close>, \<open>current_page\<close>
  returns \<open>n + 1\<close>.
\<close>

theorem current_page_after_get_next:
  assumes "0 < fst (limit cfg q)" and "offset q = 0" and "n < 2 ^ 53"
  shows "fst (current_page cfg (snd (repeat_get_next cfg n w q))) = Inr (int n + 1)"
proof -
  define q' where "q' = snd (repeat_get_next cfg n w q)"
  have off: "offset q' = int n * fst (limit cfg q)"
    using assms(2) by (simp add: q'_def repeat_get_next_offset)
  have lim: "fst (limit cfg q') = fst (limit cfg q)" by (simp add: limit_fst)
  have "int n < 2 ^ 53" using assms(3) by (metis of_nat_less_iff of_nat_numeral of_nat_power)
  then have "true_div (offset q') (fst (limit cfg q')) = Inr (of_int (int n))"
    unfolding off lim using assms(1) by (intro true_div_exact) simp_all
  then have "fst (current_page cfg q') = Inr (py_int (of_int (int n)) + 1)"
    by (simp only: current_page_fst sum.case)
  then show ?thesis
    unfolding q'_def by (simp only: py_int_of_int)
qed

theorem current_page_after_get_next_witness:
  "0 < fst (limit cfg0 q0)
   \<and> offset q0 = 0
   \<and> (3::nat) < 2 ^ 53
   \<and> offset (snd (repeat_get_next cfg0 3 w0 q0)) = 66
   \<and> fst (current_page cfg0 (snd (repeat_get_next cfg0 3 w0 q0))) = Inr 4"
proof -
  have l: "fst (limit cfg0 q0) = 22"
    by (simp add: limit_fst cfg0_def)
  show ?thesis
    using current_page_after_get_next [of cfg0 q0 3 w0]
    by (simp add: l q0_offset repeat_get_next_offset)
qed

section \<open>Properties of the logger\<close>

text \<open>
  C9, the claim as stated fails: the flag does not default to false when it is
  not configured.  With a \<open>log\<close> section that has no \<open>enable\<close> key, the
  logger writes.
\<close>

theorem ApiLog_enable_unset_counterexample:
  "log cfg_log = Some \<lparr>enable = None, log_file = Some ''/var/log/tygenie.log''\<rparr>
   \<and> console (ApiLog cfg_log ''ping'' w0) = [''[now] ping'']
   \<and> ApiLog cfg_log ''ping'' w0 \<noteq> w0"
proof -
  have c: "console (ApiLog cfg_log ''ping'' w0) = [''[now] ping'']"
    by (simp add: ApiLog_def cfg_log_def cfg0_def w0_def Let_def)
  have "console w0 = []"
    by (simp add: w0_def)
  with c have "ApiLog cfg_log ''ping'' w0 \<noteq> w0"
    by auto
  with c show ?thesis
    by (simp add: cfg_log_def)
qed

text \<open>
  C9, amended.  \<open>ApiLog\<close> is a no-op on the empty message, and whenever the
  configuration has no \<open>log\<close> section or the section's \<open>enable\<close> flag is
  present and false; a section without the flag enables logging.  When enabled,
  it writes the message, prefixed with the date in brackets, to the console and
  appends that line to the configured file (by default \<open>/tmp/tygenie.log\<close>);
  when the file cannot be written, the files are left alone and a second line
  on the console reports it.  The logger returns in every case.
\<close>

theorem ApiLog_behaviour:
  "ApiLog cfg [] w = w
   \<and> (log cfg = None \<or> (\<exists>l. log cfg = Some l \<and> enable l = Some False)
        \<longrightarrow> ApiLog cfg m w = w)
   \<and> (m \<noteq> [] \<and> log cfg = Some l \<and> enable l \<noteq> Some False \<longrightarrow>
        (let line = ''['' @ clock w (ticks w) @ ''] '' @ m;
             path = (case log_file l of None \<Rightarrow> ''/tmp/tygenie.log'' | Some p \<Rightarrow> p)
         in case files w path of
              Content c \<Rightarrow>
                console (ApiLog cfg m w) = console w @ [line]
                \<and> files (ApiLog cfg m w) = (files w)(path := Content (c @ line @ [CHR 0x0A]))
            | Unwritable e \<Rightarrow>
                console (ApiLog cfg m w) = console w @ [line, ''Unable to log in file: '' @ e]
                \<and> files (ApiLog cfg m w) = files w))"
proof -
  have a: "ApiLog cfg [] w = w"
    by (simp add: ApiLog_def)
  have b: "ApiLog cfg m w = w"
    if "log cfg = None \<or> (\<exists>l. log cfg = Some l \<and> enable l = Some False)"
    using that by (auto simp add: ApiLog_def Let_def)
  have c: "let line = ''['' @ clock w (ticks w) @ ''] '' @ m;
               path = (case log_file l of None \<Rightarrow> ''/tmp/tygenie.log'' | Some p \<Rightarrow> p)
           in case files w path of
                Content c \<Rightarrow>
                  console (ApiLog cfg m w) = console w @ [line]
                  \<and> files (ApiLog cfg m w) = (files w)(path := Content (c @ line @ [CHR 0x0A]))
              | Unwritable e \<Rightarrow>
                  console (ApiLog cfg m w) = console w @ [line, ''Unable to log in file: '' @ e]
                  \<and> files (ApiLog cfg m w) = files w"
    if "m \<noteq> []" "log cfg = Some l" "enable l \<noteq> Some False"
    using that by (simp add: ApiLog_def Let_def split: file_state.splits)
  from a b c show ?thesis
    by blast
qed

theorem ApiLog_behaviour_witness:
  "log cfg0 = None
   \<and> ApiLog cfg0 ''ping'' w0 = w0
   \<and> ''ping'' \<noteq> []
   \<and> log cfg_log = Some \<lparr>enable = None, log_file = Some ''/var/log/tygenie.log''\<rparr>
   \<and> enable \<lparr>enable = None, log_file = Some ''/var/log/tygenie.log''\<rparr> \<noteq> Some False
   \<and> console (ApiLog cfg_log ''ping'' w0) = [''[now] ping'']
   \<and> files (ApiLog cfg_log ''ping'' w0) ''/var/log/tygenie.log''
        = Content (''[now] ping'' @ [CHR 0x0A])"
proof -
  note a = ApiLog_behaviour [of cfg0 w0 "''ping''"]
  note b = ApiLog_behaviour [of cfg_log w0 "''ping''"
      "\<lparr>enable = None, log_file = Some ''/var/log/tygenie.log''\<rparr>"]
  have l0: "log cfg0 = None"
    by (simp add: cfg0_def)
  have l1: "log cfg_log = Some \<lparr>enable = None, log_file = Some ''/var/log/tygenie.log''\<rparr>"
    by (simp add: cfg_log_def)
  have f: "files w0 ''/var/log/tygenie.log'' = Content []" "console w0 = []"
    "clock w0 (ticks w0) = ''now''"
    by (simp_all add: w0_def)
  from a l0 have 1: "ApiLog cfg0 ''ping'' w0 = w0"
    by simp
  from b l1 f have 2: "console (ApiLog cfg_log ''ping'' w0) = [''[now] ping'']
      \<and> files (ApiLog cfg_log ''ping'' w0) ''/var/log/tygenie.log''
           = Content (''[now] ping'' @ [CHR 0x0A])"
    by (simp add: Let_def)
  from 1 2 l0 l1 show ?thesis
    by simp
qed

section \<open>Properties of the facade\<close>

lemma self0_simps:
  "username self0 = ''alice''" "source self0 = ''TyGenie 1.0''"
  by (simp_all add: self0_def OpsGenie_init_def g0_def)

lemma get_alert_fst:
  "fst (get_alert g self parameters h w) =
     fst (api_call g self (res_get_alert g) (h (arg_or_default ''get_alert'' parameters)) w)"
  by (simp add: get_alert_def Let_def split: prod.splits)

text \<open>
  Without a collision of keywords, \<open>api_call\<close> returns: whatever the remote
  operation and the response do, no exception leaves it.
\<close>

lemma api_call_returns:
  assumes "''self'' \<notin> dom kwargs" and "''resource'' \<notin> dom kwargs"
  shows "\<exists>v. fst (api_call g self resource kwargs w) = Inr v"
  using assms
  by (simp add: api_call_def api_call_try_def Let_def split: sum.splits prod.splits)

text \<open>
  C2.  The facade is meant to be fail-soft, and is for an exception raised
  inside \<open>api_call\<close>: \<open>get_alert\<close> called without an identifier returns
  \<open>None\<close>, the remote operation's \<open>TypeError\<close> being caught.  But
  \<open>remove_tag_alert\<close> reads \<open>parameters["identifier"]\<close> before it
  delegates, outside the \<open>try\<close> block: called with its own default
  arguments it raises \<open>KeyError\<close> to the caller.
\<close>

theorem remove_tag_alert_raises_KeyError:
  "h0 (DefaultArg ''remove_tag_alert'') ''identifier'' = None
   \<and> fst (remove_tag_alert g0 self0 None [] [] h0 w0) = Inl (KeyError ''identifier'')
   \<and> fst (get_alert g0 self0 None h0 w0) = Inr RNone"
proof -
  have a: "h0 (DefaultArg ''remove_tag_alert'') ''identifier'' = None"
    by (simp add: h0_def)
  have b: "fst (remove_tag_alert g0 self0 None [] [] h0 w0) = Inl (KeyError ''identifier'')"
    by (simp add: remove_tag_alert_def arg_or_default_def h0_def)
  have "call_resource self0 res_needs_identifier Map.empty
          = Inl (TypeError ''missing 1 required keyword-only argument: identifier'')"
    by (simp add: call_resource_def res_needs_identifier_def)
  then have "fst (api_call g0 self0 res_needs_identifier Map.empty w0) = Inr RNone"
    by (simp add: api_call_def api_call_try_def Let_def)
  moreover have "res_get_alert g0 = res_needs_identifier"
    by (simp add: g0_def)
  ultimately have c: "fst (get_alert g0 self0 None h0 w0) = Inr RNone"
    by (simp add: get_alert_fst arg_or_default_def h0_def)
  from a b c show ?thesis
    by simp
qed

text \<open>
  C3, the claim as stated fails: when the call has returned a response and a
  later step raises (here, extracting the parsed payload), the handler returns
  the local variable \<open>response\<close>, which is the response object, not \<open>None\<close>.
\<close>

theorem api_call_returns_response_counterexample:
  "call_resource self0 (res_returning unparsed_response) Map.empty = Inr unparsed_response
   \<and> parsed unparsed_response = Inl (RemoteFailure ''no payload'')
   \<and> fst (api_call g0 self0 (res_returning unparsed_response) Map.empty w0)
        = Inr (RResponse unparsed_response)
   \<and> fst (api_call g0 self0 (res_returning unparsed_response) Map.empty w0) \<noteq> Inr RNone"
proof -
  have a: "call_resource self0 (res_returning unparsed_response) Map.empty
             = Inr unparsed_response"
    by (simp add: call_resource_def res_returning_def)
  have b: "status_code unparsed_response = Inr 200" "content unparsed_response = Inr ''{}''"
    "parsed unparsed_response = Inl (RemoteFailure ''no payload'')"
    by (simp_all add: unparsed_response_def)
  have "fst (api_call g0 self0 (res_returning unparsed_response) Map.empty w0)
          = Inr (RResponse unparsed_response)"
    by (simp add: api_call_def api_call_try_def a b Let_def)
  with a b show ?thesis
    by simp
qed

text \<open>
  C3, amended.  For keyword parameters that do not collide with the parameters
  of \<open>api_call\<close> itself: if a step of the sequence raises, \<open>api_call\<close> calls
  the logger with the exception's message and returns, without propagating.  It
  returns \<open>None\<close> when the failing step is the call of the remote operation,
  and the response object that the call returned when a later step fails:
  reading the status code or the content for the log, or extracting the parsed
  payload.
\<close>

theorem api_call_exception:
  assumes "''self'' \<notin> dom kwargs" and "''resource'' \<notin> dom kwargs"
  shows
  "(let cfg = ty_config g;
        failed = (\<lambda>e. ApiLog cfg (''Exception in API call: '' @ exn_str e));
        w1 = ApiLog cfg (''API call '' @ resource_name resource @ '' with params ''
                          @ str_of_params g kwargs) w
    in (call_resource self resource kwargs = Inl e \<longrightarrow>
          api_call g self resource kwargs w = (Inr RNone, failed e w1))
     \<and> (call_resource self resource kwargs = Inr r \<and> status_code r = Inl e \<longrightarrow>
          api_call g self resource kwargs w = (Inr (RResponse r), failed e w1))
     \<and> (call_resource self resource kwargs = Inr r \<and> status_code r = Inr sc
          \<and> content r = Inl e \<longrightarrow>
          api_call g self resource kwargs w =
            (Inr (RResponse r),
             failed e (ApiLog cfg (''API status code: '' @ str_of_int g sc) w1)))
     \<and> (call_resource self resource kwargs = Inr r \<and> status_code r = Inr sc
          \<and> content r = Inr c \<and> parsed r = Inl e \<longrightarrow>
          api_call g self resource kwargs w =
            (Inr (RResponse r),
             failed e
               (ApiLog cfg (''API call '' @ resource_name resource @ '' done'')
                 (ApiLog cfg (''API content: '' @ str_of_bytes g c)
                   (ApiLog cfg (''API status code: '' @ str_of_int g sc) w1))))))"
  using assms by (simp add: api_call_def api_call_try_def Let_def)

theorem api_call_exception_witness:
  "''self'' \<notin> dom (Map.empty :: params) \<and> ''resource'' \<notin> dom (Map.empty :: params)
   \<and> call_resource self0 res_timeout Map.empty = Inl (RemoteFailure ''timed out'')
   \<and> fst (api_call g0 self0 res_timeout Map.empty w0) = Inr RNone
   \<and> call_resource self0 (res_returning unreadable_response) Map.empty = Inr unreadable_response
   \<and> status_code unreadable_response = Inl (RemoteFailure ''no status'')
   \<and> fst (api_call g0 self0 (res_returning unreadable_response) Map.empty w0)
        = Inr (RResponse unreadable_response)
   \<and> content undecodable_response = Inl (RemoteFailure ''no content'')
   \<and> fst (api_call g0 self0 (res_returning undecodable_response) Map.empty w0)
        = Inr (RResponse undecodable_response)
   \<and> parsed unparsed_response = Inl (RemoteFailure ''no payload'')
   \<and> fst (api_call g0 self0 (res_returning unparsed_response) Map.empty w0)
        = Inr (RResponse unparsed_response)"
proof -
  have d: "''self'' \<notin> dom (Map.empty :: params)" "''resource'' \<notin> dom (Map.empty :: params)"
    by simp_all
  have c1: "call_resource self0 res_timeout Map.empty = Inl (RemoteFailure ''timed out'')"
    by (simp add: call_resource_def res_timeout_def)
  have c2: "call_resource self0 (res_returning r) Map.empty = Inr r" for r
    by (simp add: call_resource_def res_returning_def)
  have r2: "status_code unreadable_response = Inl (RemoteFailure ''no status'')"
    by (simp add: unreadable_response_def)
  have r3: "status_code undecodable_response = Inr 200"
    "content undecodable_response = Inl (RemoteFailure ''no content'')"
    by (simp_all add: undecodable_response_def)
  have r4: "status_code unparsed_response = Inr 200" "content unparsed_response = Inr ''{}''"
    "parsed unparsed_response = Inl (RemoteFailure ''no payload'')"
    by (simp_all add: unparsed_response_def)
  have 1: "fst (api_call g0 self0 res_timeout Map.empty w0) = Inr RNone"
    using api_call_exception [OF d, where g = g0 and self = self0 and resource = res_timeout
        and e = "RemoteFailure ''timed out''" and w = w0] c1
    by (simp add: Let_def)
  have 2: "fst (api_call g0 self0 (res_returning unreadable_response) Map.empty w0)
             = Inr (RResponse unreadable_response)"
    using api_call_exception [OF d, where g = g0 and self = self0
        and resource = "res_returning unreadable_response"
        and e = "RemoteFailure ''no status''" and w = w0 and r = unreadable_response] c2 r2
    by (simp add: Let_def)
  have 3: "fst (api_call g0 self0 (res_returning undecodable_response) Map.empty w0)
             = Inr (RResponse undecodable_response)"
    using api_call_exception [OF d, where g = g0 and self = self0
        and resource = "res_returning undecodable_response"
        and e = "RemoteFailure ''no content''" and w = w0 and r = undecodable_response
        and sc = 200] c2 r3
    by (simp add: Let_def)
  have 4: "fst (api_call g0 self0 (res_returning unparsed_response) Map.empty w0)
             = Inr (RResponse unparsed_response)"
    using api_call_exception [OF d, where g = g0 and self = self0
        and resource = "res_returning unparsed_response"
        and e = "RemoteFailure ''no payload''" and w = w0 and r = unparsed_response
        and sc = 200 and c = "''{}''"] c2 r4
    by (simp add: Let_def)
  from d c1 c2 r2 r3 r4 1 2 3 4 show ?thesis
    by simp
qed

text \<open>
  C10.  Each of \<open>ack_alert\<close>, \<open>unack_alert\<close>, \<open>close_alert\<close>,
  \<open>add_note\<close> and \<open>tag_alert\<close> stores the payload under the key
  \<open>body\<close> in the dictionary object it was given, and delegates with the
  dictionary so updated; every other object of the heap is unchanged.  When the
  argument is omitted the object is the method's default dictionary, which is
  part of the heap that the call returns and is the object that the next call
  without argument uses.
\<close>

theorem mutators_insert_body:
  "(let p = arg_or_default ''ack_alert'' parameters;
        d = (h p)(''body'' \<mapsto> VBody (AlertActionPayload (username self) (source self) nt))
    in fst (snd (ack_alert g self parameters nt h w)) = h(p := d)
       \<and> fst (ack_alert g self parameters nt h w)
            = fst (api_call g self (res_acknowledge_alert g) d w))
   \<and> (let p = arg_or_default ''unack_alert'' parameters;
            d = (h p)(''body'' \<mapsto> VBody (AlertActionPayload (username self) (source self) nt))
        in fst (snd (unack_alert g self parameters nt h w)) = h(p := d)
           \<and> fst (unack_alert g self parameters nt h w)
                = fst (api_call g self (res_un_acknowledge_alert g) d w))
   \<and> (let p = arg_or_default ''close_alert'' parameters;
            d = (h p)(''body'' \<mapsto>
                  VBody (AlertActionPayload (username self) (''TyGenie '' @ VERSION g) nt))
        in fst (snd (close_alert g self parameters nt h w)) = h(p := d)
           \<and> fst (close_alert g self parameters nt h w)
                = fst (api_call g self (res_close_alert g) d w))
   \<and> (let p = arg_or_default ''add_note'' parameters;
            d = (h p)(''body'' \<mapsto> VBody (AlertActionPayload (username self) (source self) nt))
        in fst (snd (add_note g self parameters nt h w)) = h(p := d)
           \<and> fst (add_note g self parameters nt h w)
                = fst (api_call g self (res_add_note g) d
                        (ApiLog (ty_config g)
                          (''opsgenie call add_note with params: '' @ str_of_params g d) w)))
   \<and> (let p = arg_or_default ''tag_alert'' parameters;
            d = (h p)(''body'' \<mapsto>
                  VBody (AddTagsToAlertPayload (username self) (source self) nt tgs))
        in fst (snd (tag_alert g self parameters tgs nt h w)) = h(p := d)
           \<and> fst (tag_alert g self parameters tgs nt h w)
                = fst (api_call g self (res_add_tags g) d w))
   \<and> arg_or_default m (Some r) = r
   \<and> arg_or_default m None = DefaultArg m"
proof -
  have 1: "let p = arg_or_default ''ack_alert'' parameters;
        d = (h p)(''body'' \<mapsto> VBody (AlertActionPayload (username self) (source self) nt))
    in fst (snd (ack_alert g self parameters nt h w)) = h(p := d)
       \<and> fst (ack_alert g self parameters nt h w)
            = fst (api_call g self (res_acknowledge_alert g) d w)"
    by (simp add: ack_alert_def Let_def split: prod.splits)
  have 2: "let p = arg_or_default ''unack_alert'' parameters;
            d = (h p)(''body'' \<mapsto> VBody (AlertActionPayload (username self) (source self) nt))
        in fst (snd (unack_alert g self parameters nt h w)) = h(p := d)
           \<and> fst (unack_alert g self parameters nt h w)
                = fst (api_call g self (res_un_acknowledge_alert g) d w)"
    by (simp add: unack_alert_def Let_def split: prod.splits)
  have 3: "let p = arg_or_default ''close_alert'' parameters;
            d = (h p)(''body'' \<mapsto>
                  VBody (AlertActionPayload (username self) (''TyGenie '' @ VERSION g) nt))
        in fst (snd (close_alert g self parameters nt h w)) = h(p := d)
           \<and> fst (close_alert g self parameters nt h w)
                = fst (api_call g self (res_close_alert g) d w)"
    by (simp add: close_alert_def Let_def split: prod.splits)
  have 4: "let p = arg_or_default ''add_note'' parameters;
            d = (h p)(''body'' \<mapsto> VBody (AlertActionPayload (username self) (source self) nt))
        in fst (snd (add_note g self parameters nt h w)) = h(p := d)
           \<and> fst (add_note g self parameters nt h w)
                = fst (api_call g self (res_add_note g) d
                        (ApiLog (ty_config g)
                          (''opsgenie call add_note with params: '' @ str_of_params g d) w))"
    by (simp add: add_note_def Let_def split: prod.splits)
  have 5: "let p = arg_or_default ''tag_alert'' parameters;
            d = (h p)(''body'' \<mapsto>
                  VBody (AddTagsToAlertPayload (username self) (source self) nt tgs))
        in fst (snd (tag_alert g self parameters tgs nt h w)) = h(p := d)
           \<and> fst (tag_alert g self parameters tgs nt h w)
                = fst (api_call g self (res_add_tags g) d w)"
    by (simp add: tag_alert_def Let_def split: prod.splits)
  have 6: "arg_or_default m (Some r) = r" "arg_or_default m None = DefaultArg m"
    by (simp_all add: arg_or_default_def)
  from 1 2 3 4 5 6 show ?thesis
    by (intro conjI)
qed

text \<open>
  An instance: a caller's dictionary with an identifier gains the key, and so
  does the default dictionary of \<open>ack_alert\<close>, empty before the first call
  without argument.
\<close>

lemma ack_alert_mutates_example:
  "fst (snd (ack_alert g0 self0 (Some (Obj 1)) ''seen''
              (h0(Obj 1 := [''identifier'' \<mapsto> VStr ''a1''])) w0)) (Obj 1)
     = [''identifier'' \<mapsto> VStr ''a1'',
        ''body'' \<mapsto> VBody (AlertActionPayload ''alice'' ''TyGenie 1.0'' ''seen'')]"
  "h0 (DefaultArg ''ack_alert'') = Map.empty"
  "fst (snd (ack_alert g0 self0 None ''seen'' h0 w0)) (DefaultArg ''ack_alert'')
     = [''body'' \<mapsto> VBody (AlertActionPayload ''alice'' ''TyGenie 1.0'' ''seen'')]"
  by (simp_all add: ack_alert_def arg_or_default_def h0_def self0_simps Let_def
      split: prod.splits)


end
